theory Spec2Isabelle
  imports Main
begin

section \<open>Values, exceptions and external calls\<close>

text \<open>
  The tools of \<^verbatim>\<open>crew.py\<close> read \<^verbatim>\<open>os.environ\<close>, build JSON payloads from
  dictionaries, call external services and either return a dictionary or raise. The
  model makes each of these explicit: the environment is a map, a JSON value is a
  datatype, an exception is a value of \<open>error\<close>, and every tool returns its outcome
  together with the list of external calls it performed, in order.
\<close>

type_synonym environ = "string \<rightharpoonup> string"

text \<open>A news item is a dictionary with string keys; the fields are strings.\<close>

type_synonym item = "string \<rightharpoonup> string"

datatype json =
    JNone
  | JBool bool
  | JInt int
  | JStr string
  | JList "json list"
  | JDict "(string \<times> json) list"

text \<open>
  The exceptions that the tools can raise. \<open>Exception\<close> is the plain
  \<^verbatim>\<open>Exception(msg)\<close> of the source; \<open>KeyError\<close> comes from \<^verbatim>\<open>d[key]\<close> on a missing
  key; the others are raised by the libraries the tools call: \<open>HTTPError\<close> (with the
  status) by \<^verbatim>\<open>raise_for_status\<close>, \<open>RequestException\<close> by a request that gets no response,
  \<open>HttpError\<close> by the spreadsheet service, \<open>ValueError\<close> by the credentials constructor.
\<close>

datatype error =
    Exception string
  | KeyError string
  | TypeError string
  | AttributeError string
  | BinasciiError
  | UnicodeDecodeError
  | JSONDecodeError
  | ValueError string
  | HTTPError nat
  | RequestException string
  | HttpError nat

record http_request =
  req_method :: string
  req_url :: string
  req_headers :: "(string \<times> string option) list"
  req_json :: json

record http_response =
  status_code :: nat
  body :: "json option"

record credentials =
  account_info :: json
  account_scopes :: "string list"

record append_call =
  creds :: credentials
  spreadsheetId :: string
  sheet_range :: string
  valueInputOption :: string
  request_body :: json

text \<open>
  An external call, as a tool makes it: a call of the \<^verbatim>\<open>requests\<close> library
  (\<^verbatim>\<open>requests.post\<close>, \<^verbatim>\<open>requests.request\<close>) with the request handed to it, the construction
  of the spreadsheet service (which may fetch a discovery document, depending on the
  client library), and the execution of an append request. A tool that makes no call
  sends nothing. What a call of \<^verbatim>\<open>requests\<close> puts on the network is the library's and
  not the tool's, see \<open>requests_lib\<close> below.
\<close>

datatype event =
    RequestsCall http_request
  | ServiceBuild string string
  | SheetsAppend append_call

text \<open>
  The \<^verbatim>\<open>requests\<close> library: \<open>outcome\<close> is what a call returns (the final response) or
  raises, \<open>wire\<close> is the list of HTTP requests that the call puts on the network. The
  list is empty when the library cannot prepare the URL (it raises before it sends), has
  one request in the plain case, and more than one when the library follows redirects.
\<close>

record requests_lib =
  outcome :: "http_request \<Rightarrow> error + http_response"
  wire :: "http_request \<Rightarrow> http_request list"

text \<open>The HTTP requests on the network that belong to the calls of a trace.\<close>

definition on_wire :: "requests_lib \<Rightarrow> event list \<Rightarrow> http_request list" where
  "on_wire lib tr =
     concat (map (\<lambda>ev. case ev of RequestsCall r \<Rightarrow> wire lib r | _ \<Rightarrow> []) tr)"

text \<open>\<^verbatim>\<open>d[key]\<close> on a dictionary.\<close>

definition getitem :: "item \<Rightarrow> string \<Rightarrow> error + string" where
  "getitem d k = (case d k of None \<Rightarrow> Inl (KeyError k) | Some v \<Rightarrow> Inr v)"

text \<open>
  \<^verbatim>\<open>x.get(key)\<close>: on a dictionary the value or \<^verbatim>\<open>None\<close>; other values have no \<^verbatim>\<open>get\<close>, and
  the \<^verbatim>\<open>AttributeError\<close> names the attribute.
\<close>

definition py_get :: "json \<Rightarrow> string \<Rightarrow> error + json" where
  "py_get x k =
     (case x of
        JDict d \<Rightarrow> Inr (case map_of d k of None \<Rightarrow> JNone | Some v \<Rightarrow> v)
      | _ \<Rightarrow> Inl (AttributeError ''get''))"

text \<open>
  \<^verbatim>\<open>Response.raise_for_status()\<close> of the \<^verbatim>\<open>requests\<close> library raises \<^verbatim>\<open>HTTPError\<close> for a
  client error (400 to 499) or a server error (500 to 599) and returns otherwise.
\<close>

definition raise_for_status :: "http_response \<Rightarrow> error option" where
  "raise_for_status response =
     (if 400 \<le> status_code response \<and> status_code response < 600
      then Some (HTTPError (status_code response)) else None)"

text \<open>\<^verbatim>\<open>Response.json()\<close>: the parsed body, or a decoding error when it is not JSON.\<close>

definition response_json :: "http_response \<Rightarrow> error + json" where
  "response_json response =
     (case body response of None \<Rightarrow> Inl JSONDecodeError | Some j \<Rightarrow> Inr j)"

section \<open>NewsFetcherTool\<close>

text \<open>
  The parameter \<open>request\<close> is the call \<^verbatim>\<open>requests.request\<close>: the response that it returns
  for a request, or the exception it raises; the trace records the call. The value of the key header is what
  \<^verbatim>\<open>os.environ.get\<close> gives, \<open>None\<close> for a variable that is not set (\<^verbatim>\<open>requests\<close> leaves such a
  header out of what it sends). The tool has no other branch: it sends the request and
  returns \<^verbatim>\<open>response.json()\<close>.
\<close>

definition NewsFetcherTool ::
  "environ \<Rightarrow> (http_request \<Rightarrow> error + http_response) \<Rightarrow> string
     \<Rightarrow> (error + json) \<times> event list" where
  "NewsFetcherTool environ request topic =
     (let url = ''https://google.serper.dev/search'';
          payload = JDict [(''q'', JStr topic)];
          headers = [(''X-API-KEY'', environ ''SERPER_API_KEY''),
                     (''Content-Type'', Some ''application/json'')];
          req = \<lparr>req_method = ''POST'', req_url = url, req_headers = headers, req_json = payload\<rparr>
      in case request req of
           Inl e \<Rightarrow> (Inl e, [RequestsCall req])
         | Inr response \<Rightarrow> (response_json response, [RequestsCall req]))"

section \<open>SlackBotTool\<close>

text \<open>
  The f-string of one section block reads \<^verbatim>\<open>item['url']\<close>, \<^verbatim>\<open>item['headline']\<close> and
  \<^verbatim>\<open>item['summary']\<close>, in this order; the first missing key raises.
\<close>

definition section_text :: "item \<Rightarrow> error + string" where
  "section_text item =
     (case getitem item ''url'' of
        Inl e \<Rightarrow> Inl e
      | Inr u \<Rightarrow>
          (case getitem item ''headline'' of
             Inl e \<Rightarrow> Inl e
           | Inr h \<Rightarrow>
               (case getitem item ''summary'' of
                  Inl e \<Rightarrow> Inl e
                | Inr s \<Rightarrow> Inr (''*<'' @ u @ ''|'' @ h @ ''>*'' @ [CHR 0x0A] @ s))))"

definition section_block :: "string \<Rightarrow> json" where
  "section_block t =
     JDict [(''type'', JStr ''section''),
            (''text'', JDict [(''type'', JStr ''mrkdwn''), (''text'', JStr t)])]"

definition divider_block :: json where
  "divider_block = JDict [(''type'', JStr ''divider'')]"

text \<open>The loop over \<^verbatim>\<open>summaries\<close>, extending the list \<^verbatim>\<open>blocks\<close> built so far.\<close>

fun build_blocks :: "json list \<Rightarrow> item list \<Rightarrow> error + json list" where
  "build_blocks blocks [] = Inr blocks"
| "build_blocks blocks (item # rest) =
     (case section_text item of
        Inl e \<Rightarrow> Inl e
      | Inr t \<Rightarrow> build_blocks (blocks @ [section_block t, divider_block]) rest)"

definition slack_payload :: "string \<Rightarrow> json list \<Rightarrow> json" where
  "slack_payload channel blocks = JDict [(''channel'', JStr channel), (''blocks'', JList blocks)]"

definition slack_request :: "string \<Rightarrow> json \<Rightarrow> http_request" where
  "slack_request webhook_url payload =
     \<lparr>req_method = ''POST'', req_url = webhook_url, req_headers = [], req_json = payload\<rparr>"

text \<open>
  The tool itself. \<open>post\<close> is the call \<^verbatim>\<open>requests.post\<close>, as above, made at most once and
  recorded in the trace whatever it returns or raises; the caller passes the channel, whose
  default in the source is \<^verbatim>\<open>"#general"\<close>. \<^verbatim>\<open>not webhook_url\<close> holds for a variable that is
  not set and for the empty string.
\<close>

definition missing_webhook :: error where
  "missing_webhook = Exception ''Missing SLACK_WEBHOOK_URL in environment variables''"

definition SlackBotTool ::
  "environ \<Rightarrow> (http_request \<Rightarrow> error + http_response) \<Rightarrow> item list \<Rightarrow> string
     \<Rightarrow> (error + json) \<times> event list" where
  "SlackBotTool environ post summaries channel =
     (case environ ''SLACK_WEBHOOK_URL'' of
        None \<Rightarrow> (Inl missing_webhook, [])
      | Some webhook_url \<Rightarrow>
          if webhook_url = [] then (Inl missing_webhook, [])
          else
            (case build_blocks [] summaries of
               Inl e \<Rightarrow> (Inl e, [])
             | Inr blocks \<Rightarrow>
                 (let req = slack_request webhook_url (slack_payload channel blocks)
                  in case post req of
                       Inl e \<Rightarrow> (Inl e, [RequestsCall req])
                     | Inr response \<Rightarrow>
                         (case raise_for_status response of
                            Some e \<Rightarrow> (Inl e, [RequestsCall req])
                          | None \<Rightarrow>
                              (Inr (JDict [(''status'', JStr ''sent''),
                                           (''count'', JInt (int (length summaries)))]),
                               [RequestsCall req])))))"

section \<open>GoogleSheetsLogger\<close>

text \<open>
  The library functions that GoogleSheetsLogger calls are parameters of the model:
  \<^verbatim>\<open>base64.b64decode\<close> (\<open>None\<close> when it raises \<^verbatim>\<open>binascii.Error\<close>), \<^verbatim>\<open>bytes.decode\<close>
  (\<open>None\<close> for \<^verbatim>\<open>UnicodeDecodeError\<close>), \<^verbatim>\<open>json.loads\<close> (\<open>None\<close> for
  \<^verbatim>\<open>JSONDecodeError\<close>), \<^verbatim>\<open>Credentials.from_service_account_info\<close>, \<^verbatim>\<open>build\<close> (\<open>None\<close>
  when the service object is built) and the \<^verbatim>\<open>execute\<close> of an append request, which is
  the remote spreadsheet service.
\<close>

record gcp_lib =
  b64decode :: "string \<Rightarrow> string option"
  utf8_decode :: "string \<Rightarrow> string option"
  json_loads :: "string \<Rightarrow> json option"
  from_service_account_info :: "json \<Rightarrow> string list \<Rightarrow> error + credentials"
  build :: "string \<Rightarrow> string \<Rightarrow> credentials \<Rightarrow> error option"
  execute :: "append_call \<Rightarrow> error + json"

text \<open>\<^verbatim>\<open>json.loads(base64.b64decode(s).decode("utf-8"))\<close>, innermost call first.\<close>

definition load_info :: "gcp_lib \<Rightarrow> string \<Rightarrow> error + json" where
  "load_info lib s =
     (case b64decode lib s of
        None \<Rightarrow> Inl BinasciiError
      | Some bytes \<Rightarrow>
          (case utf8_decode lib bytes of
             None \<Rightarrow> Inl UnicodeDecodeError
           | Some text \<Rightarrow>
               (case json_loads lib text of
                  None \<Rightarrow> Inl JSONDecodeError
                | Some j \<Rightarrow> Inr j)))"

text \<open>
  One row of the sheet: \<^verbatim>\<open>[item["date"], item["headline"], item["summary"], item["url"]]\<close>,
  the keys read in this order.
\<close>

definition row_of :: "item \<Rightarrow> error + string list" where
  "row_of item =
     (case getitem item ''date'' of
        Inl e \<Rightarrow> Inl e
      | Inr d \<Rightarrow>
          (case getitem item ''headline'' of
             Inl e \<Rightarrow> Inl e
           | Inr h \<Rightarrow>
               (case getitem item ''summary'' of
                  Inl e \<Rightarrow> Inl e
                | Inr s \<Rightarrow>
                    (case getitem item ''url'' of
                       Inl e \<Rightarrow> Inl e
                     | Inr u \<Rightarrow> Inr [d, h, s, u]))))"

text \<open>The loop over \<^verbatim>\<open>news_items\<close>, appending to the list \<^verbatim>\<open>rows\<close> built so far.\<close>

fun build_rows :: "string list list \<Rightarrow> item list \<Rightarrow> error + string list list" where
  "build_rows rows [] = Inr rows"
| "build_rows rows (item # rest) =
     (case row_of item of
        Inl e \<Rightarrow> Inl e
      | Inr r \<Rightarrow> build_rows (rows @ [r]) rest)"

definition rows_json :: "string list list \<Rightarrow> json" where
  "rows_json rows = JList (map (\<lambda>r. JList (map JStr r)) rows)"

text \<open>
  \<^verbatim>\<open>sheet.values().append(spreadsheetId=..., ...)\<close> of the Google API client builds the
  request and does not send it. The client drops keyword arguments whose value is
  \<^verbatim>\<open>None\<close> and raises \<^verbatim>\<open>TypeError\<close> for a required parameter that is then missing;
  \<^verbatim>\<open>spreadsheetId\<close> is required.
\<close>

definition missing_parameter :: "string \<Rightarrow> error" where
  \<open>missing_parameter name = TypeError (''Missing required parameter "'' @ name @ ''"'')\<close>

definition values_append ::
  "credentials \<Rightarrow> string option \<Rightarrow> string \<Rightarrow> string \<Rightarrow> json \<Rightarrow> error + append_call" where
  \<open>values_append c sid rng opt b =
     (case sid of
        None \<Rightarrow> Inl (missing_parameter ''spreadsheetId'')
      | Some i \<Rightarrow>
          Inr \<lparr>creds = c, spreadsheetId = i, sheet_range = rng, valueInputOption = opt,
               request_body = b\<rparr>)\<close>

text \<open>\<^verbatim>\<open>result.get("updates").get("updatedRows")\<close>.\<close>

definition updated_rows :: "json \<Rightarrow> error + json" where
  "updated_rows result =
     (case py_get result ''updates'' of
        Inl e \<Rightarrow> Inl e
      | Inr updates \<Rightarrow> py_get updates ''updatedRows'')"

definition GoogleSheetsLogger ::
  "gcp_lib \<Rightarrow> environ \<Rightarrow> item list \<Rightarrow> (error + json) \<times> event list" where
  "GoogleSheetsLogger lib environ news_items =
     (let SCOPES = [''https://www.googleapis.com/auth/spreadsheets'']
      in case environ ''GCP_CREDENTIALS_B64'' of
           None \<Rightarrow> (Inl (KeyError ''GCP_CREDENTIALS_B64''), [])
         | Some secret \<Rightarrow>
             (case load_info lib secret of
                Inl e \<Rightarrow> (Inl e, [])
              | Inr info \<Rightarrow>
                  (case from_service_account_info lib info SCOPES of
                     Inl e \<Rightarrow> (Inl e, [])
                   | Inr c \<Rightarrow>
                       (case build lib ''sheets'' ''v4'' c of
                          Some e \<Rightarrow> (Inl e, [ServiceBuild ''sheets'' ''v4''])
                        | None \<Rightarrow>
                            (let SPREADSHEET_ID = environ ''SPREADSHEET_ID'';
                                 RANGE = ''Sheet1!A:D''
                             in case build_rows [] news_items of
                                  Inl e \<Rightarrow> (Inl e, [ServiceBuild ''sheets'' ''v4''])
                                | Inr rows \<Rightarrow>
                                    (case values_append c SPREADSHEET_ID RANGE ''RAW''
                                            (JDict [(''values'', rows_json rows)]) of
                                       Inl e \<Rightarrow> (Inl e, [ServiceBuild ''sheets'' ''v4''])
                                     | Inr call \<Rightarrow>
                                         (case execute lib call of
                                            Inl e \<Rightarrow>
                                              (Inl e, [ServiceBuild ''sheets'' ''v4'',
                                                       SheetsAppend call])
                                          | Inr result \<Rightarrow>
                                              (case updated_rows result of
                                                 Inl e \<Rightarrow>
                                                   (Inl e, [ServiceBuild ''sheets'' ''v4'',
                                                            SheetsAppend call])
                                               | Inr n \<Rightarrow>
                                                   (Inr (JDict [(''status'', JStr ''logged''),
                                                                (''rows_added'', n)]),
                                                    [ServiceBuild ''sheets'' ''v4'',
                                                     SheetsAppend call])))))))))"

section \<open>The entry point\<close>

text \<open>
  \<^verbatim>\<open>run\<close> of \<^verbatim>\<open>main.py\<close> calls \<^verbatim>\<open>NewsAutomation().crew().kickoff(inputs=inputs)\<close> inside
  \<^verbatim>\<open>try\<close> and, in \<^verbatim>\<open>except Exception as e\<close>, raises a new \<^verbatim>\<open>Exception\<close> whose message is
  a fixed prefix followed by \<^verbatim>\<open>str(e)\<close>. The crew is a parameter: \<open>kickoff\<close> takes the
  inputs and the state of the outside world and returns what it raised or returned
  together with the new state. \<open>is_exception\<close> says whether a raised object is an
  instance of \<^verbatim>\<open>Exception\<close> (only those are caught), \<open>str_e\<close> is its \<^verbatim>\<open>str\<close>, and \<open>year\<close> is
  \<^verbatim>\<open>str(datetime.now().year)\<close>. The function returns nothing; the greeting it prints
  first is left out.
\<close>

datatype 'e run_error =
    Wrapped string
  | Propagated 'e

definition run_inputs :: "string \<Rightarrow> (string \<times> string) list" where
  "run_inputs year =
     [(''topic'', ''Artificial Intelligence and Tech''), (''current_year'', year)]"

definition run ::
  "('e \<Rightarrow> bool) \<Rightarrow> ('e \<Rightarrow> string) \<Rightarrow> ((string \<times> string) list \<Rightarrow> 'w \<Rightarrow> ('e + 'r) \<times> 'w)
     \<Rightarrow> string \<Rightarrow> 'w \<Rightarrow> ('e run_error + unit) \<times> 'w" where
  "run is_exception str_e kickoff year w =
     (case kickoff (run_inputs year) w of
        (Inl e, w') \<Rightarrow>
          if is_exception e
          then (Inl (Wrapped (''An error occurred while running the crew: '' @ str_e e)), w')
          else (Inl (Propagated e), w')
      | (Inr r, w') \<Rightarrow> (Inr (), w'))"

section \<open>Well-formed items and concrete collaborators\<close>

text \<open>An item that has each of the given keys.\<close>

definition has_keys :: "string list \<Rightarrow> item \<Rightarrow> bool" where
  "has_keys ks item = list_all (\<lambda>k. item k \<noteq> None) ks"

definition slack_keys :: "string list" where
  "slack_keys = [''url'', ''headline'', ''summary'']"

definition sheet_keys :: "string list" where
  "sheet_keys = [''date'', ''headline'', ''summary'', ''url'']"

text \<open>The two blocks that an item contributes, when it has the three fields.\<close>

definition item_blocks :: "item \<Rightarrow> json list" where
  "item_blocks item =
     (case section_text item of Inl e \<Rightarrow> [] | Inr t \<Rightarrow> [section_block t, divider_block])"

text \<open>A \<^verbatim>\<open>requests\<close> call that returns the same response for every request.\<close>

definition replies :: "http_response \<Rightarrow> http_request \<Rightarrow> error + http_response" where
  "replies response req = Inr response"

text \<open>
  A library whose decoders accept every secret and yield the given service-account
  information, and whose remote service answers every append with the given result.
\<close>

definition accepting_lib :: "json \<Rightarrow> json \<Rightarrow> gcp_lib" where
  "accepting_lib account result =
     \<lparr>b64decode = Some, utf8_decode = Some, json_loads = (\<lambda>s. Some account),
      from_service_account_info = (\<lambda>i sc. Inr \<lparr>account_info = i, account_scopes = sc\<rparr>),
      build = (\<lambda>name version c. None),
      execute = (\<lambda>call. Inr result)\<rparr>"

text \<open>A library whose base64 decoder rejects every secret.\<close>

definition rejecting_lib :: gcp_lib where
  "rejecting_lib = (accepting_lib JNone JNone)\<lparr>b64decode := (\<lambda>s. None)\<rparr>"

text \<open>The item, the environment and the responses of the worked examples.\<close>

definition example_item :: item where
  "example_item =
     [''date'' \<mapsto> ''2024-01-01'', ''headline'' \<mapsto> ''X'', ''summary'' \<mapsto> ''Y'',
      ''url'' \<mapsto> ''http://z'']"

definition example_environ :: environ where
  "example_environ =
     [''SLACK_WEBHOOK_URL'' \<mapsto> ''https://hooks.slack.com/services/T0'',
      ''GCP_CREDENTIALS_B64'' \<mapsto> ''e30='',
      ''SPREADSHEET_ID'' \<mapsto> ''sheet-1'']"

definition response_with :: "nat \<Rightarrow> http_response" where
  "response_with code = \<lparr>status_code = code, body = None\<rparr>"

text \<open>An item without url and summary.\<close>

definition headline_only :: item where
  "headline_only = [''headline'' \<mapsto> ''X'']"

text \<open>A second item, and the environment without the spreadsheet identifier.\<close>

definition second_item :: item where
  "second_item =
     [''date'' \<mapsto> ''2024-01-02'', ''headline'' \<mapsto> ''P'', ''summary'' \<mapsto> ''Q'',
      ''url'' \<mapsto> ''http://r'']"

definition no_sheet_environ :: environ where
  "no_sheet_environ =
     [''SLACK_WEBHOOK_URL'' \<mapsto> ''https://hooks.slack.com/services/T0'',
      ''GCP_CREDENTIALS_B64'' \<mapsto> ''e30='']"

text \<open>The scope that GoogleSheetsLogger asks for, and the append request it builds.\<close>

definition sheets_scopes :: "string list" where
  "sheets_scopes = [''https://www.googleapis.com/auth/spreadsheets'']"

definition append_of :: "credentials \<Rightarrow> string \<Rightarrow> string list list \<Rightarrow> append_call" where
  "append_of c sid rows =
     \<lparr>creds = c, spreadsheetId = sid, sheet_range = ''Sheet1!A:D'', valueInputOption = ''RAW'',
      request_body = JDict [(''values'', rows_json rows)]\<rparr>"

text \<open>
  A crew that fails with the given exception and counts, in the state of the world, how
  often it was started. An exception is here its message.
\<close>

definition failing_kickoff ::
  "string \<Rightarrow> (string \<times> string) list \<Rightarrow> nat \<Rightarrow> (string + unit) \<times> nat" where
  "failing_kickoff e inputs started = (Inl e, Suc started)"

definition every_exception :: "string \<Rightarrow> bool" where
  "every_exception e = True"

definition message_of :: "string \<Rightarrow> string" where
  "message_of e = e"

text \<open>
  The credentials that the accepting library yields, and two answers of the remote
  service to an append: one that reports zero updated rows and one that reports none.
\<close>

definition example_credentials :: credentials where
  "example_credentials = \<lparr>account_info = JDict [], account_scopes = sheets_scopes\<rparr>"

definition zero_rows_result :: json where
  "zero_rows_result =
     JDict [(''spreadsheetId'', JStr ''sheet-1''),
            (''updates'', JDict [(''spreadsheetId'', JStr ''sheet-1''), (''updatedRows'', JInt 0)])]"

definition no_rows_result :: json where
  "no_rows_result =
     JDict [(''spreadsheetId'', JStr ''sheet-1''),
            (''updates'', JDict [(''spreadsheetId'', JStr ''sheet-1''),
                                (''updatedRange'', JStr ''Sheet1!A1'')])]"

text \<open>
  Three instances of the \<^verbatim>\<open>requests\<close> library: one that sends the request it is given and
  returns the given response; one that is redirected once, so that it sends the request
  again to the new location before it returns the response; and one that cannot prepare
  the URL, so that it raises and sends nothing.
\<close>

definition plain_lib :: "http_response \<Rightarrow> requests_lib" where
  "plain_lib response = \<lparr>outcome = replies response, wire = (\<lambda>r. [r])\<rparr>"

definition redirected_lib :: "http_response \<Rightarrow> requests_lib" where
  "redirected_lib response =
     \<lparr>outcome = replies response,
      wire = (\<lambda>r. [r, r\<lparr>req_url := ''https://hooks.slack.com/services/T1''\<rparr>])\<rparr>"

definition unprepared_lib :: requests_lib where
  "unprepared_lib =
     \<lparr>outcome = (\<lambda>r. Inl (RequestException ''MissingSchema'')), wire = (\<lambda>r. [])\<rparr>"

text \<open>An environment whose webhook URL has no scheme.\<close>

definition schemeless_environ :: environ where
  "schemeless_environ = [''SLACK_WEBHOOK_URL'' \<mapsto> ''hooks.slack.com/services/T0'']"

section \<open>Properties of the block and row loops\<close>

lemma section_text_ok:
  "has_keys slack_keys item \<Longrightarrow>
     section_text item = Inr (''*<'' @ the (item ''url'') @ ''|'' @ the (item ''headline'') @ ''>*''
                               @ [CHR 0x0A] @ the (item ''summary''))"
  by (auto simp: has_keys_def slack_keys_def section_text_def getitem_def)

lemma section_text_fail:
  "\<not> has_keys slack_keys item \<Longrightarrow>
     \<exists>k. k \<in> set slack_keys \<and> section_text item = Inl (KeyError k)"
  by (auto simp: has_keys_def slack_keys_def section_text_def getitem_def split: option.splits)

lemma build_blocks_ok:
  "list_all (has_keys slack_keys) xs \<Longrightarrow>
     build_blocks acc xs = Inr (acc @ concat (map item_blocks xs))"
proof (induction xs arbitrary: acc)
  case Nil
  then show ?case by simp
next
  case (Cons x xs)
  then show ?case by (simp add: section_text_ok item_blocks_def)
qed

lemma build_blocks_fail:
  "\<not> list_all (has_keys slack_keys) xs \<Longrightarrow>
     \<exists>k. k \<in> set slack_keys \<and> build_blocks acc xs = Inl (KeyError k)"
proof (induction xs arbitrary: acc)
  case Nil
  then show ?case by simp
next
  case (Cons x xs)
  show ?case
  proof (cases "has_keys slack_keys x")
    case True
    with Cons.prems have "\<not> list_all (has_keys slack_keys) xs" by simp
    from Cons.IH [OF this] True show ?thesis by (simp add: section_text_ok)
  next
    case False
    from section_text_fail [OF this] show ?thesis by auto
  qed
qed

lemma example_item_slack: "has_keys slack_keys example_item"
  by (simp add: has_keys_def slack_keys_def example_item_def)

lemma example_item_blocks:
  "item_blocks example_item
     = [section_block (''*<http://z|X>*'' @ [CHR 0x0A] @ ''Y''), divider_block]"
  by (simp add: item_blocks_def section_text_def getitem_def example_item_def)

lemma example_webhook:
  "example_environ ''SLACK_WEBHOOK_URL'' = Some ''https://hooks.slack.com/services/T0''"
  by (simp add: example_environ_def)

lemma row_of_ok:
  "has_keys sheet_keys item \<Longrightarrow> \<exists>r. row_of item = Inr r"
  by (auto simp: row_of_def getitem_def has_keys_def sheet_keys_def)

lemma build_rows_Inr:
  "build_rows acc xs = Inr rows \<Longrightarrow>
     \<exists>new. rows = acc @ new \<and> list_all2 (\<lambda>x r. row_of x = Inr r) xs new"
proof (induction xs arbitrary: acc)
  case Nil
  then show ?case by simp
next
  case (Cons x xs)
  from Cons.prems obtain r where r: "row_of x = Inr r"
    and rest: "build_rows (acc @ [r]) xs = Inr rows"
    by (auto split: sum.splits)
  from Cons.IH [OF rest] obtain new where "rows = (acc @ [r]) @ new"
    "list_all2 (\<lambda>x r. row_of x = Inr r) xs new" by blast
  with r have "rows = acc @ (r # new) \<and> list_all2 (\<lambda>x r. row_of x = Inr r) (x # xs) (r # new)"
    by simp
  then show ?case by blast
qed

lemma build_rows_ok:
  "list_all (has_keys sheet_keys) xs \<Longrightarrow> \<exists>rows. build_rows acc xs = Inr rows"
proof (induction xs arbitrary: acc)
  case Nil
  then show ?case by simp
next
  case (Cons x xs)
  then obtain r where "row_of x = Inr r" using row_of_ok [of x] by auto
  with Cons show ?case by simp
qed

text \<open>An append that GoogleSheetsLogger executes carries the rows built from the input.\<close>

lemma GoogleSheetsLogger_append_body:
  "SheetsAppend call \<in> set (snd (GoogleSheetsLogger lib environ news_items)) \<Longrightarrow>
     \<exists>rows sid. build_rows [] news_items = Inr rows \<and> environ ''SPREADSHEET_ID'' = Some sid
        \<and> spreadsheetId call = sid
        \<and> request_body call = JDict [(''values'', rows_json rows)]"
  by (auto simp: GoogleSheetsLogger_def Let_def values_append_def
           split: option.splits sum.splits)

lemma build_rows_fields:
  assumes "build_rows [] news_items = Inr rows"
  shows "length rows = length news_items
         \<and> (\<forall>i. i < length news_items
               \<longrightarrow> (\<exists>d h s u. (news_items ! i) ''date'' = Some d
                        \<and> (news_items ! i) ''headline'' = Some h
                        \<and> (news_items ! i) ''summary'' = Some s
                        \<and> (news_items ! i) ''url'' = Some u
                        \<and> rows ! i = [d, h, s, u]))"
proof (intro conjI allI impI)
  from build_rows_Inr [OF assms]
  have l: "list_all2 (\<lambda>x r. row_of x = Inr r) news_items rows" by simp
  then show "length rows = length news_items" by (simp add: list_all2_lengthD)
  fix i assume "i < length news_items"
  with l have "row_of (news_items ! i) = Inr (rows ! i)"
    by (auto simp: list_all2_conv_all_nth)
  then show "\<exists>d h s u. (news_items ! i) ''date'' = Some d
                         \<and> (news_items ! i) ''headline'' = Some h
                         \<and> (news_items ! i) ''summary'' = Some s
                         \<and> (news_items ! i) ''url'' = Some u
                         \<and> rows ! i = [d, h, s, u]"
    by (auto simp: row_of_def getitem_def split: option.splits)
qed

text \<open>With everything in place, the tool builds the service and executes one append.\<close>

lemma GoogleSheetsLogger_appends:
  assumes "environ ''GCP_CREDENTIALS_B64'' = Some secret" "load_info lib secret = Inr i"
    "from_service_account_info lib i sheets_scopes = Inr c"
    "build lib ''sheets'' ''v4'' c = None"
    "environ ''SPREADSHEET_ID'' = Some sid"
    "build_rows [] news_items = Inr rs"
  shows "snd (GoogleSheetsLogger lib environ news_items)
           = [ServiceBuild ''sheets'' ''v4'', SheetsAppend (append_of c sid rs)]"
  using assms
  by (auto simp: GoogleSheetsLogger_def sheets_scopes_def values_append_def append_of_def
           split: sum.splits)

lemma second_item_sheet: "has_keys sheet_keys second_item"
  by (simp add: has_keys_def sheet_keys_def second_item_def)

lemma accepting_lib_simps:
  "b64decode (accepting_lib a r) = Some"
  "utf8_decode (accepting_lib a r) = Some"
  "json_loads (accepting_lib a r) s = Some a"
  "from_service_account_info (accepting_lib a r) i sc = Inr \<lparr>account_info = i, account_scopes = sc\<rparr>"
  "build (accepting_lib a r) n v c = None"
  "execute (accepting_lib a r) call = Inr r"
  by (simp_all add: accepting_lib_def)

lemma load_info_accepting: "load_info (accepting_lib a r) s = Inr a"
  by (simp add: load_info_def accepting_lib_simps)

lemma load_info_rejecting: "load_info rejecting_lib s = Inl BinasciiError"
  by (simp add: load_info_def rejecting_lib_def)

lemma load_info_errors:
  "load_info lib s = Inl e \<Longrightarrow> e = BinasciiError \<or> e = UnicodeDecodeError \<or> e = JSONDecodeError"
  by (auto simp: load_info_def split: option.splits)

lemma example_item_sheet: "has_keys sheet_keys example_item"
  by (simp add: has_keys_def sheet_keys_def example_item_def)

text \<open>SlackBotTool performs no external call, or exactly the one POST of the full batch.\<close>

lemma SlackBotTool_trace_cases:
  "snd (SlackBotTool environ post summaries channel) = []
   \<or> (\<exists>w. environ ''SLACK_WEBHOOK_URL'' = Some w \<and> w \<noteq> []
          \<and> list_all (has_keys slack_keys) summaries
          \<and> snd (SlackBotTool environ post summaries channel)
               = [RequestsCall (slack_request w
                    (slack_payload channel (concat (map item_blocks summaries))))])"
proof (cases "list_all (has_keys slack_keys) summaries")
  case True
  then show ?thesis
    by (auto simp: SlackBotTool_def Let_def build_blocks_ok split: option.splits sum.splits)
next
  case False
  from build_blocks_fail [OF this, of "[]"] show ?thesis
    by (auto simp: SlackBotTool_def Let_def split: option.splits)
qed

section \<open>The count reported by SlackBotTool\<close>

text \<open>
  C1. Whenever SlackBotTool returns, what it returns is the confirmation whose count is
  the length of the input sequence. It does return when the webhook is configured, every
  item has the url, headline and summary fields, and the webhook answers the request with
  a status that \<^verbatim>\<open>raise_for_status\<close> accepts. For the empty sequence the count is 0.
\<close>

theorem SlackBotTool_count:
  "(SlackBotTool environ post summaries channel = (Inr r, tr)
      \<longrightarrow> r = JDict [(''status'', JStr ''sent''), (''count'', JInt (int (length summaries)))])
   \<and> (environ ''SLACK_WEBHOOK_URL'' = Some w \<and> w \<noteq> []
        \<and> list_all (has_keys slack_keys) summaries
        \<and> post (slack_request w (slack_payload channel (concat (map item_blocks summaries))))
              = Inr response
        \<and> raise_for_status response = None
      \<longrightarrow> fst (SlackBotTool environ post summaries channel)
            = Inr (JDict [(''status'', JStr ''sent''),
                          (''count'', JInt (int (length summaries)))]))
   \<and> (summaries = [] \<and> SlackBotTool environ post summaries channel = (Inr r, tr)
      \<longrightarrow> py_get r ''count'' = Inr (JInt 0))"
proof (intro conjI impI)
  assume "SlackBotTool environ post summaries channel = (Inr r, tr)"
  then show "r = JDict [(''status'', JStr ''sent''), (''count'', JInt (int (length summaries)))]"
    by (auto simp: SlackBotTool_def Let_def split: option.splits if_splits sum.splits)
next
  assume "environ ''SLACK_WEBHOOK_URL'' = Some w \<and> w \<noteq> []
        \<and> list_all (has_keys slack_keys) summaries
        \<and> post (slack_request w (slack_payload channel (concat (map item_blocks summaries))))
              = Inr response
        \<and> raise_for_status response = None"
  then show "fst (SlackBotTool environ post summaries channel)
            = Inr (JDict [(''status'', JStr ''sent''), (''count'', JInt (int (length summaries)))])"
    by (simp add: SlackBotTool_def Let_def build_blocks_ok)
next
  assume "summaries = [] \<and> SlackBotTool environ post summaries channel = (Inr r, tr)"
  then show "py_get r ''count'' = Inr (JInt 0)"
    by (auto simp: SlackBotTool_def Let_def py_get_def split: option.splits if_splits sum.splits)
qed

theorem SlackBotTool_count_witness:
  "fst (SlackBotTool example_environ (replies (response_with 200)) [example_item] ''#general'')
     = Inr (JDict [(''status'', JStr ''sent''), (''count'', JInt 1)])"
proof -
  have "example_environ ''SLACK_WEBHOOK_URL'' = Some ''https://hooks.slack.com/services/T0''
        \<and> ''https://hooks.slack.com/services/T0'' \<noteq> []
        \<and> list_all (has_keys slack_keys) [example_item]
        \<and> replies (response_with 200)
             (slack_request ''https://hooks.slack.com/services/T0''
                (slack_payload ''#general'' (concat (map item_blocks [example_item]))))
              = Inr (response_with 200)
        \<and> raise_for_status (response_with 200) = None"
    by (simp add: example_webhook example_item_slack replies_def raise_for_status_def
          response_with_def)
  with SlackBotTool_count [where environ = example_environ
      and post = "replies (response_with 200)" and summaries = "[example_item]"
      and channel = "''#general''" and w = "''https://hooks.slack.com/services/T0''"
      and response = "response_with 200"]
  show ?thesis by simp
qed

section \<open>Missing webhook configuration\<close>

text \<open>
  C4. When the webhook URL is absent from the environment (or is the empty string),
  SlackBotTool raises the exception that reports the missing setting and performs no
  external call, whatever the summaries, the channel and the behaviour of the network
  are: the check precedes the construction of the blocks and the POST.
\<close>

theorem SlackBotTool_missing_webhook:
  assumes "environ ''SLACK_WEBHOOK_URL'' = None \<or> environ ''SLACK_WEBHOOK_URL'' = Some []"
  shows "SlackBotTool environ post summaries channel
           = (Inl (Exception ''Missing SLACK_WEBHOOK_URL in environment variables''), [])"
  using assms by (auto simp: SlackBotTool_def missing_webhook_def)

theorem SlackBotTool_missing_webhook_witness:
  "SlackBotTool Map.empty (replies (response_with 200)) [example_item, headline_only] ''#general''
     = (Inl (Exception ''Missing SLACK_WEBHOOK_URL in environment variables''), [])"
  using SlackBotTool_missing_webhook [of Map.empty] by simp

section \<open>Items that lack a field\<close>

text \<open>
  C10. SlackBotTool builds all the blocks before it sends anything. If some item of the
  input lacks url, headline or summary, the tool performs no external call and raises;
  with the webhook configured, what it raises is the \<^verbatim>\<open>KeyError\<close> of one of the three
  keys. Conversely, a call of \<^verbatim>\<open>requests.post\<close> that the tool makes is the only one, every
  item had the three fields, and the payload of the call holds, for each item in input
  order, the section block of the item followed by a divider block.
\<close>

theorem SlackBotTool_malformed_item:
  "(\<not> list_all (has_keys slack_keys) summaries
      \<longrightarrow> snd (SlackBotTool environ post summaries channel) = []
          \<and> (\<exists>e. fst (SlackBotTool environ post summaries channel) = Inl e))
   \<and> (\<not> list_all (has_keys slack_keys) summaries
        \<and> environ ''SLACK_WEBHOOK_URL'' = Some w \<and> w \<noteq> []
      \<longrightarrow> (\<exists>k. k \<in> set slack_keys
               \<and> SlackBotTool environ post summaries channel = (Inl (KeyError k), [])))
   \<and> (RequestsCall q \<in> set (snd (SlackBotTool environ post summaries channel))
      \<longrightarrow> list_all (has_keys slack_keys) summaries
          \<and> req_json q = slack_payload channel (concat (map item_blocks summaries))
          \<and> snd (SlackBotTool environ post summaries channel) = [RequestsCall q])"
proof (intro conjI impI)
  assume bad: "\<not> list_all (has_keys slack_keys) summaries"
  from build_blocks_fail [OF bad, of "[]"]
  show "snd (SlackBotTool environ post summaries channel) = []"
    by (auto simp: SlackBotTool_def split: option.splits)
  from build_blocks_fail [OF bad, of "[]"]
  show "\<exists>e. fst (SlackBotTool environ post summaries channel) = Inl e"
    by (auto simp: SlackBotTool_def split: option.splits)
next
  assume "\<not> list_all (has_keys slack_keys) summaries
        \<and> environ ''SLACK_WEBHOOK_URL'' = Some w \<and> w \<noteq> []"
  then have bad: "\<not> list_all (has_keys slack_keys) summaries"
    and conf: "environ ''SLACK_WEBHOOK_URL'' = Some w" "w \<noteq> []" by simp_all
  from build_blocks_fail [OF bad, of "[]"] conf
  show "\<exists>k. k \<in> set slack_keys
          \<and> SlackBotTool environ post summaries channel = (Inl (KeyError k), [])"
    by (auto simp: SlackBotTool_def)
next
  assume sent: "RequestsCall q \<in> set (snd (SlackBotTool environ post summaries channel))"
  with SlackBotTool_trace_cases [of environ post summaries channel]
  obtain w where w: "list_all (has_keys slack_keys) summaries"
     "snd (SlackBotTool environ post summaries channel)
               = [RequestsCall (slack_request w
                    (slack_payload channel (concat (map item_blocks summaries))))]"
    by auto
  from w show "list_all (has_keys slack_keys) summaries" by simp
  from w sent show "req_json q = slack_payload channel (concat (map item_blocks summaries))"
    by (auto simp: slack_request_def)
  from w sent show "snd (SlackBotTool environ post summaries channel) = [RequestsCall q]"
    by auto
qed

theorem SlackBotTool_malformed_item_witness:
  "SlackBotTool example_environ (replies (response_with 200)) [example_item, headline_only]
      ''#general'' = (Inl (KeyError ''url''), [])"
proof -
  have "\<not> list_all (has_keys slack_keys) [example_item, headline_only]
        \<and> example_environ ''SLACK_WEBHOOK_URL'' = Some ''https://hooks.slack.com/services/T0''
        \<and> ''https://hooks.slack.com/services/T0'' \<noteq> []"
    by (simp add: example_webhook has_keys_def slack_keys_def headline_only_def)
  with SlackBotTool_malformed_item [where environ = example_environ
      and post = "replies (response_with 200)" and summaries = "[example_item, headline_only]"
      and channel = "''#general''" and w = "''https://hooks.slack.com/services/T0''"]
  obtain k where "k \<in> set slack_keys"
     "SlackBotTool example_environ (replies (response_with 200)) [example_item, headline_only]
      ''#general'' = (Inl (KeyError k), [])" by blast
  moreover have "fst (SlackBotTool example_environ (replies (response_with 200)) [example_item, headline_only]
      ''#general'') = Inl (KeyError ''url'')"
    by (simp add: SlackBotTool_def example_webhook section_text_def getitem_def
          example_item_def headline_only_def)
  ultimately show ?thesis by simp
qed

section \<open>One call, and the statuses that raise\<close>

text \<open>
  C5, as amended. SlackBotTool never calls \<^verbatim>\<open>requests.post\<close> more than once: it does not
  retry and does not split the batch. With the webhook configured and every item having
  the three fields it makes exactly one call, whose payload holds the blocks of the whole
  input, and the HTTP requests on the network are those that the library sends for this
  one call; without the webhook, or with an item that lacks a field, nothing is on the
  network. If the response that the call returns has a status from 400 to 599, the tool
  raises \<^verbatim>\<open>HTTPError\<close> and returns no confirmation; if the call raises, the tool raises the
  same.
\<close>

theorem SlackBotTool_single_request:
  "length (snd (SlackBotTool environ (outcome lib) summaries channel)) \<le> 1
   \<and> (environ ''SLACK_WEBHOOK_URL'' = Some w \<and> w \<noteq> []
        \<and> list_all (has_keys slack_keys) summaries
      \<longrightarrow> snd (SlackBotTool environ (outcome lib) summaries channel)
            = [RequestsCall (slack_request w
                 (slack_payload channel (concat (map item_blocks summaries))))]
          \<and> on_wire lib (snd (SlackBotTool environ (outcome lib) summaries channel))
            = wire lib (slack_request w
                 (slack_payload channel (concat (map item_blocks summaries)))))
   \<and> (environ ''SLACK_WEBHOOK_URL'' = None \<or> environ ''SLACK_WEBHOOK_URL'' = Some []
        \<or> \<not> list_all (has_keys slack_keys) summaries
      \<longrightarrow> on_wire lib (snd (SlackBotTool environ (outcome lib) summaries channel)) = [])
   \<and> (environ ''SLACK_WEBHOOK_URL'' = Some w \<and> w \<noteq> []
        \<and> list_all (has_keys slack_keys) summaries
        \<and> outcome lib
             (slack_request w (slack_payload channel (concat (map item_blocks summaries))))
              = Inr response
        \<and> 400 \<le> status_code response \<and> status_code response < 600
      \<longrightarrow> fst (SlackBotTool environ (outcome lib) summaries channel)
            = Inl (HTTPError (status_code response)))
   \<and> (environ ''SLACK_WEBHOOK_URL'' = Some w \<and> w \<noteq> []
        \<and> list_all (has_keys slack_keys) summaries
        \<and> outcome lib
             (slack_request w (slack_payload channel (concat (map item_blocks summaries))))
              = Inl e
      \<longrightarrow> fst (SlackBotTool environ (outcome lib) summaries channel) = Inl e)"
proof (intro conjI impI)
  from SlackBotTool_trace_cases [of environ "outcome lib" summaries channel]
  show "length (snd (SlackBotTool environ (outcome lib) summaries channel)) \<le> 1" by auto
next
  assume "environ ''SLACK_WEBHOOK_URL'' = Some w \<and> w \<noteq> []
        \<and> list_all (has_keys slack_keys) summaries"
  then show one: "snd (SlackBotTool environ (outcome lib) summaries channel)
            = [RequestsCall (slack_request w
                 (slack_payload channel (concat (map item_blocks summaries))))]"
    by (auto simp: SlackBotTool_def Let_def build_blocks_ok split: option.splits sum.splits)
  show "on_wire lib (snd (SlackBotTool environ (outcome lib) summaries channel))
            = wire lib (slack_request w
                 (slack_payload channel (concat (map item_blocks summaries))))"
    by (simp add: one on_wire_def)
next
  assume none: "environ ''SLACK_WEBHOOK_URL'' = None \<or> environ ''SLACK_WEBHOOK_URL'' = Some []
        \<or> \<not> list_all (has_keys slack_keys) summaries"
  from SlackBotTool_trace_cases [of environ "outcome lib" summaries channel] none
  have "snd (SlackBotTool environ (outcome lib) summaries channel) = []" by auto
  then show "on_wire lib (snd (SlackBotTool environ (outcome lib) summaries channel)) = []"
    by (simp add: on_wire_def)
next
  assume "environ ''SLACK_WEBHOOK_URL'' = Some w \<and> w \<noteq> []
        \<and> list_all (has_keys slack_keys) summaries
        \<and> outcome lib
             (slack_request w (slack_payload channel (concat (map item_blocks summaries))))
              = Inr response
        \<and> 400 \<le> status_code response \<and> status_code response < 600"
  then show "fst (SlackBotTool environ (outcome lib) summaries channel)
            = Inl (HTTPError (status_code response))"
    by (simp add: SlackBotTool_def Let_def build_blocks_ok raise_for_status_def)
next
  assume "environ ''SLACK_WEBHOOK_URL'' = Some w \<and> w \<noteq> []
        \<and> list_all (has_keys slack_keys) summaries
        \<and> outcome lib
             (slack_request w (slack_payload channel (concat (map item_blocks summaries))))
              = Inl e"
  then show "fst (SlackBotTool environ (outcome lib) summaries channel) = Inl e"
    by (simp add: SlackBotTool_def Let_def build_blocks_ok)
qed

theorem SlackBotTool_single_request_witness:
  "SlackBotTool example_environ (outcome (plain_lib (response_with 404))) [example_item]
       ''#general''
     = (Inl (HTTPError 404),
        [RequestsCall (slack_request ''https://hooks.slack.com/services/T0''
           (slack_payload ''#general''
              [section_block (''*<http://z|X>*'' @ [CHR 0x0A] @ ''Y''), divider_block]))])
   \<and> on_wire (plain_lib (response_with 404))
        (snd (SlackBotTool example_environ (outcome (plain_lib (response_with 404)))
               [example_item] ''#general''))
     = [slack_request ''https://hooks.slack.com/services/T0''
           (slack_payload ''#general''
              [section_block (''*<http://z|X>*'' @ [CHR 0x0A] @ ''Y''), divider_block])]"
proof -
  have "example_environ ''SLACK_WEBHOOK_URL'' = Some ''https://hooks.slack.com/services/T0''
        \<and> ''https://hooks.slack.com/services/T0'' \<noteq> []
        \<and> list_all (has_keys slack_keys) [example_item]
        \<and> outcome (plain_lib (response_with 404))
             (slack_request ''https://hooks.slack.com/services/T0''
                (slack_payload ''#general'' (concat (map item_blocks [example_item]))))
              = Inr (response_with 404)
        \<and> 400 \<le> status_code (response_with 404) \<and> status_code (response_with 404) < 600"
    by (simp add: example_webhook example_item_slack replies_def response_with_def
          plain_lib_def)
  with SlackBotTool_single_request [where environ = example_environ
      and lib = "plain_lib (response_with 404)" and summaries = "[example_item]"
      and channel = "''#general''" and w = "''https://hooks.slack.com/services/T0''"
      and response = "response_with 404"]
  have "snd (SlackBotTool example_environ (outcome (plain_lib (response_with 404)))
               [example_item] ''#general'')
            = [RequestsCall (slack_request ''https://hooks.slack.com/services/T0''
                 (slack_payload ''#general'' (concat (map item_blocks [example_item]))))]"
    and "on_wire (plain_lib (response_with 404))
           (snd (SlackBotTool example_environ (outcome (plain_lib (response_with 404)))
                  [example_item] ''#general''))
            = wire (plain_lib (response_with 404))
                (slack_request ''https://hooks.slack.com/services/T0''
                   (slack_payload ''#general'' (concat (map item_blocks [example_item]))))"
    and "fst (SlackBotTool example_environ (outcome (plain_lib (response_with 404)))
               [example_item] ''#general'')
            = Inl (HTTPError (status_code (response_with 404)))"
    by blast+
  then show ?thesis
    by (simp add: prod_eq_iff example_item_blocks response_with_def plain_lib_def)
qed

text \<open>
  The claim fails in two ways. A response 304 is outside 200 to 299 and is accepted by
  \<^verbatim>\<open>raise_for_status\<close>, so the tool returns the confirmation. And the number of HTTP
  requests is the library's: for the one call of the tool, a library that follows a
  redirect sends two requests, and a library that cannot prepare a webhook URL without
  scheme sends none.
\<close>

theorem SlackBotTool_status_304_counterexample:
  "\<not> (200 \<le> status_code (response_with 304) \<and> status_code (response_with 304) < 300)
   \<and> SlackBotTool example_environ (replies (response_with 304)) [example_item] ''#general''
     = (Inr (JDict [(''status'', JStr ''sent''), (''count'', JInt 1)]),
        [RequestsCall (slack_request ''https://hooks.slack.com/services/T0''
           (slack_payload ''#general''
              [section_block (''*<http://z|X>*'' @ [CHR 0x0A] @ ''Y''), divider_block]))])
   \<and> length (on_wire (redirected_lib (response_with 200))
        (snd (SlackBotTool example_environ (outcome (redirected_lib (response_with 200)))
               [example_item] ''#general''))) = 2
   \<and> on_wire unprepared_lib
        (snd (SlackBotTool schemeless_environ (outcome unprepared_lib) [example_item]
               ''#general'')) = []
   \<and> fst (SlackBotTool schemeless_environ (outcome unprepared_lib) [example_item] ''#general'')
     = Inl (RequestException ''MissingSchema'')"
  by (simp add: SlackBotTool_def example_webhook section_text_def getitem_def example_item_def
        replies_def response_with_def raise_for_status_def on_wire_def redirected_lib_def
        unprepared_lib_def schemeless_environ_def)

section \<open>The rows of the sheet\<close>

text \<open>
  C2. The rows that GoogleSheetsLogger builds are as many as the items, and row \<open>i\<close> is
  the list of the date, headline, summary and url of item \<open>i\<close>, in this order. The rows
  are built whenever every item has the four fields, and the body of an append that the
  tool executes holds exactly these rows. With the credentials and the spreadsheet
  identifier in place and every item having the four fields, the tool does execute the
  append: after building the service it makes one append call, to the configured
  spreadsheet, whose body holds one row per item, row \<open>i\<close> being the four fields of item
  \<open>i\<close> in the order date, headline, summary, url.
\<close>

theorem GoogleSheetsLogger_rows:
  "(build_rows [] news_items = Inr rows
      \<longrightarrow> length rows = length news_items
          \<and> (\<forall>i. i < length news_items
                \<longrightarrow> (\<exists>d h s u. (news_items ! i) ''date'' = Some d
                         \<and> (news_items ! i) ''headline'' = Some h
                         \<and> (news_items ! i) ''summary'' = Some s
                         \<and> (news_items ! i) ''url'' = Some u
                         \<and> rows ! i = [d, h, s, u])))
   \<and> (list_all (has_keys sheet_keys) news_items
      \<longrightarrow> (\<exists>rs. build_rows [] news_items = Inr rs))
   \<and> (SheetsAppend call \<in> set (snd (GoogleSheetsLogger lib environ news_items))
      \<longrightarrow> (\<exists>rs. build_rows [] news_items = Inr rs
               \<and> request_body call = JDict [(''values'', rows_json rs)]))
   \<and> (environ ''GCP_CREDENTIALS_B64'' = Some secret \<and> load_info lib secret = Inr i
        \<and> from_service_account_info lib i sheets_scopes = Inr c
        \<and> build lib ''sheets'' ''v4'' c = None
        \<and> environ ''SPREADSHEET_ID'' = Some sid
        \<and> list_all (has_keys sheet_keys) news_items
      \<longrightarrow> (\<exists>rs. snd (GoogleSheetsLogger lib environ news_items)
                    = [ServiceBuild ''sheets'' ''v4'', SheetsAppend (append_of c sid rs)]
               \<and> length rs = length news_items
               \<and> (\<forall>i. i < length news_items
                     \<longrightarrow> (\<exists>d h s u. (news_items ! i) ''date'' = Some d
                              \<and> (news_items ! i) ''headline'' = Some h
                              \<and> (news_items ! i) ''summary'' = Some s
                              \<and> (news_items ! i) ''url'' = Some u
                              \<and> rs ! i = [d, h, s, u]))))"
proof (intro conjI impI allI)
  assume "build_rows [] news_items = Inr rows"
  from build_rows_fields [OF this]
  show "length rows = length news_items" by simp
  fix i assume "i < length news_items"
  with build_rows_fields [OF \<open>build_rows [] news_items = Inr rows\<close>]
  show "\<exists>d h s u. (news_items ! i) ''date'' = Some d
                         \<and> (news_items ! i) ''headline'' = Some h
                         \<and> (news_items ! i) ''summary'' = Some s
                         \<and> (news_items ! i) ''url'' = Some u
                         \<and> rows ! i = [d, h, s, u]"
    by blast
next
  assume "list_all (has_keys sheet_keys) news_items"
  then show "\<exists>rs. build_rows [] news_items = Inr rs" by (rule build_rows_ok)
next
  assume "SheetsAppend call \<in> set (snd (GoogleSheetsLogger lib environ news_items))"
  from GoogleSheetsLogger_append_body [OF this]
  show "\<exists>rs. build_rows [] news_items = Inr rs
               \<and> request_body call = JDict [(''values'', rows_json rs)]" by blast
next
  assume ok: "environ ''GCP_CREDENTIALS_B64'' = Some secret \<and> load_info lib secret = Inr i
        \<and> from_service_account_info lib i sheets_scopes = Inr c
        \<and> build lib ''sheets'' ''v4'' c = None
        \<and> environ ''SPREADSHEET_ID'' = Some sid
        \<and> list_all (has_keys sheet_keys) news_items"
  then obtain rs where rs: "build_rows [] news_items = Inr rs"
    using build_rows_ok [of news_items "[]"] by blast
  from ok rs have "snd (GoogleSheetsLogger lib environ news_items)
                    = [ServiceBuild ''sheets'' ''v4'', SheetsAppend (append_of c sid rs)]"
    by (simp add: GoogleSheetsLogger_appends)
  with build_rows_fields [OF rs]
  show "\<exists>rs. snd (GoogleSheetsLogger lib environ news_items)
                    = [ServiceBuild ''sheets'' ''v4'', SheetsAppend (append_of c sid rs)]
               \<and> length rs = length news_items
               \<and> (\<forall>i. i < length news_items
                     \<longrightarrow> (\<exists>d h s u. (news_items ! i) ''date'' = Some d
                              \<and> (news_items ! i) ''headline'' = Some h
                              \<and> (news_items ! i) ''summary'' = Some s
                              \<and> (news_items ! i) ''url'' = Some u
                              \<and> rs ! i = [d, h, s, u]))"
    by blast
qed

theorem GoogleSheetsLogger_rows_witness:
  "snd (GoogleSheetsLogger (accepting_lib (JDict []) zero_rows_result) example_environ
          [example_item, second_item])
     = [ServiceBuild ''sheets'' ''v4'',
        SheetsAppend (append_of example_credentials ''sheet-1''
          [[''2024-01-01'', ''X'', ''Y'', ''http://z''],
           [''2024-01-02'', ''P'', ''Q'', ''http://r'']])]"
proof -
  have "example_environ ''GCP_CREDENTIALS_B64'' = Some ''e30=''
      \<and> load_info (accepting_lib (JDict []) zero_rows_result) ''e30='' = Inr (JDict [])
      \<and> from_service_account_info (accepting_lib (JDict []) zero_rows_result) (JDict [])
           sheets_scopes = Inr example_credentials
      \<and> build (accepting_lib (JDict []) zero_rows_result) ''sheets'' ''v4'' example_credentials
           = None
      \<and> example_environ ''SPREADSHEET_ID'' = Some ''sheet-1''
      \<and> list_all (has_keys sheet_keys) [example_item, second_item]"
    by (simp add: example_environ_def load_info_accepting accepting_lib_simps
          example_credentials_def example_item_sheet second_item_sheet)
  with GoogleSheetsLogger_rows [where lib = "accepting_lib (JDict []) zero_rows_result"
      and environ = example_environ and news_items = "[example_item, second_item]"
      and secret = "''e30=''" and i = "JDict []" and c = example_credentials
      and sid = "''sheet-1''"]
  obtain rs where tr: "snd (GoogleSheetsLogger (accepting_lib (JDict []) zero_rows_result)
          example_environ [example_item, second_item])
       = [ServiceBuild ''sheets'' ''v4'', SheetsAppend (append_of example_credentials ''sheet-1'' rs)]"
    and len: "length rs = length [example_item, second_item]"
    and nth: "\<forall>i. i < length [example_item, second_item]
                     \<longrightarrow> (\<exists>d h s u. ([example_item, second_item] ! i) ''date'' = Some d
                              \<and> ([example_item, second_item] ! i) ''headline'' = Some h
                              \<and> ([example_item, second_item] ! i) ''summary'' = Some s
                              \<and> ([example_item, second_item] ! i) ''url'' = Some u
                              \<and> rs ! i = [d, h, s, u])"
    by blast
  from nth [rule_format, of 0] have r0: "rs ! 0 = [''2024-01-01'', ''X'', ''Y'', ''http://z'']"
    by (auto simp: example_item_def)
  from nth [rule_format, of 1] have r1: "rs ! 1 = [''2024-01-02'', ''P'', ''Q'', ''http://r'']"
    by (auto simp: second_item_def)
  from len obtain a b where "rs = [a, b]"
    by (cases rs; cases "tl rs"; auto)
  with r0 r1 have "rs = [[''2024-01-01'', ''X'', ''Y'', ''http://z''],
           [''2024-01-02'', ''P'', ''Q'', ''http://r'']]" by simp
  with tr show ?thesis by simp
qed

section \<open>The search key\<close>

text \<open>
  C3. NewsFetcherTool does not look at whether \<^verbatim>\<open>SERPER_API_KEY\<close> is set: with an empty
  environment it calls \<^verbatim>\<open>requests.request\<close> with the POST to the search service, with
  \<^verbatim>\<open>None\<close> as the value of the key header, and returns the parsed body of whatever the
  service answers.
\<close>

theorem NewsFetcherTool_missing_key_sends:
  "NewsFetcherTool Map.empty
      (replies \<lparr>status_code = 403, body = Some (JDict [(''message'', JStr ''Unauthorized.'')])\<rparr>)
      ''AI''
     = (Inr (JDict [(''message'', JStr ''Unauthorized.'')]),
        [RequestsCall \<lparr>req_method = ''POST'', req_url = ''https://google.serper.dev/search'',
           req_headers = [(''X-API-KEY'', None), (''Content-Type'', Some ''application/json'')],
           req_json = JDict [(''q'', JStr ''AI'')]\<rparr>])"
  by (simp add: NewsFetcherTool_def replies_def response_json_def)

section \<open>The service-account secret\<close>

text \<open>
  C7. If \<^verbatim>\<open>GCP_CREDENTIALS_B64\<close> is absent, GoogleSheetsLogger raises the \<^verbatim>\<open>KeyError\<close> of
  that name and performs no external call. If the secret is there and decoding or parsing
  it fails, the tool raises the error of the failing step (of base64, of UTF-8 or of
  JSON), again with no external call, and this error is not the \<^verbatim>\<open>KeyError\<close> of a missing
  secret. A secret that the credentials constructor rejects is raised before any external
  call too.
\<close>

theorem GoogleSheetsLogger_secret:
  "(environ ''GCP_CREDENTIALS_B64'' = None
      \<longrightarrow> GoogleSheetsLogger lib environ news_items = (Inl (KeyError ''GCP_CREDENTIALS_B64''), []))
   \<and> (environ ''GCP_CREDENTIALS_B64'' = Some secret \<and> load_info lib secret = Inl e
      \<longrightarrow> GoogleSheetsLogger lib environ news_items = (Inl e, [])
          \<and> (e = BinasciiError \<or> e = UnicodeDecodeError \<or> e = JSONDecodeError)
          \<and> e \<noteq> KeyError ''GCP_CREDENTIALS_B64'')
   \<and> (environ ''GCP_CREDENTIALS_B64'' = Some secret \<and> load_info lib secret = Inr i
        \<and> from_service_account_info lib i sheets_scopes = Inl e
      \<longrightarrow> GoogleSheetsLogger lib environ news_items = (Inl e, []))"
proof (intro conjI impI)
  assume "environ ''GCP_CREDENTIALS_B64'' = None"
  then show "GoogleSheetsLogger lib environ news_items = (Inl (KeyError ''GCP_CREDENTIALS_B64''), [])"
    by (simp add: GoogleSheetsLogger_def)
next
  assume a: "environ ''GCP_CREDENTIALS_B64'' = Some secret \<and> load_info lib secret = Inl e"
  then show "GoogleSheetsLogger lib environ news_items = (Inl e, [])"
    by (simp add: GoogleSheetsLogger_def)
  from a load_info_errors [of lib secret e]
  show "e = BinasciiError \<or> e = UnicodeDecodeError \<or> e = JSONDecodeError" by simp
  then show "e \<noteq> KeyError ''GCP_CREDENTIALS_B64''" by auto
next
  assume "environ ''GCP_CREDENTIALS_B64'' = Some secret \<and> load_info lib secret = Inr i
        \<and> from_service_account_info lib i sheets_scopes = Inl e"
  then show "GoogleSheetsLogger lib environ news_items = (Inl e, [])"
    by (simp add: GoogleSheetsLogger_def sheets_scopes_def)
qed

theorem GoogleSheetsLogger_secret_witness:
  "GoogleSheetsLogger rejecting_lib Map.empty [example_item]
     = (Inl (KeyError ''GCP_CREDENTIALS_B64''), [])
   \<and> GoogleSheetsLogger rejecting_lib example_environ [example_item] = (Inl BinasciiError, [])
   \<and> BinasciiError \<noteq> KeyError ''GCP_CREDENTIALS_B64''"
proof -
  have "Map.empty ''GCP_CREDENTIALS_B64'' = (None :: string option)" by simp
  with GoogleSheetsLogger_secret [where environ = Map.empty and lib = rejecting_lib
     and news_items = "[example_item]"]
  have a: "GoogleSheetsLogger rejecting_lib Map.empty [example_item]
     = (Inl (KeyError ''GCP_CREDENTIALS_B64''), [])" by blast
  have "example_environ ''GCP_CREDENTIALS_B64'' = Some ''e30=''
        \<and> load_info rejecting_lib ''e30='' = Inl BinasciiError"
    by (simp add: example_environ_def load_info_rejecting)
  with GoogleSheetsLogger_secret [where environ = example_environ and lib = rejecting_lib
     and news_items = "[example_item]" and secret = "''e30=''" and e = BinasciiError]
  have "GoogleSheetsLogger rejecting_lib example_environ [example_item] = (Inl BinasciiError, [])
        \<and> BinasciiError \<noteq> KeyError ''GCP_CREDENTIALS_B64''" by blast
  with a show ?thesis by blast
qed

section \<open>The spreadsheet identifier\<close>

text \<open>
  C8. If \<^verbatim>\<open>SPREADSHEET_ID\<close> is absent, GoogleSheetsLogger never returns a result and never
  executes an append. When the credentials load, the service is built and every item has
  the four fields, what it raises is the \<^verbatim>\<open>TypeError\<close> of the client library for the
  missing required parameter \<^verbatim>\<open>spreadsheetId\<close>, raised when the append request is built.
\<close>

theorem GoogleSheetsLogger_missing_spreadsheet:
  "environ ''SPREADSHEET_ID'' = None \<longrightarrow>
     (\<exists>e. fst (GoogleSheetsLogger lib environ news_items) = Inl e)
     \<and> (\<forall>call. SheetsAppend call \<notin> set (snd (GoogleSheetsLogger lib environ news_items)))
     \<and> (environ ''GCP_CREDENTIALS_B64'' = Some secret \<and> load_info lib secret = Inr i
          \<and> from_service_account_info lib i sheets_scopes = Inr c
          \<and> build lib ''sheets'' ''v4'' c = None
          \<and> list_all (has_keys sheet_keys) news_items
        \<longrightarrow> GoogleSheetsLogger lib environ news_items
              = (Inl (missing_parameter ''spreadsheetId''), [ServiceBuild ''sheets'' ''v4'']))"
proof (intro conjI impI allI)
  assume none: "environ ''SPREADSHEET_ID'' = None"
  then show "\<exists>e. fst (GoogleSheetsLogger lib environ news_items) = Inl e"
    by (auto simp: GoogleSheetsLogger_def Let_def values_append_def
             split: option.splits sum.splits)
  fix call
  from none GoogleSheetsLogger_append_body [of call lib environ news_items]
  show "SheetsAppend call \<notin> set (snd (GoogleSheetsLogger lib environ news_items))" by auto
next
  assume none: "environ ''SPREADSHEET_ID'' = None"
    and ok: "environ ''GCP_CREDENTIALS_B64'' = Some secret \<and> load_info lib secret = Inr i
          \<and> from_service_account_info lib i sheets_scopes = Inr c
          \<and> build lib ''sheets'' ''v4'' c = None
          \<and> list_all (has_keys sheet_keys) news_items"
  then obtain rows where "build_rows [] news_items = Inr rows"
    using build_rows_ok [of news_items "[]"] by blast
  with none ok show "GoogleSheetsLogger lib environ news_items
              = (Inl (missing_parameter ''spreadsheetId''), [ServiceBuild ''sheets'' ''v4''])"
    by (simp add: GoogleSheetsLogger_def sheets_scopes_def values_append_def)
qed

theorem GoogleSheetsLogger_missing_spreadsheet_witness:
  "GoogleSheetsLogger (accepting_lib (JDict []) JNone) no_sheet_environ [example_item]
     = (Inl (missing_parameter ''spreadsheetId''), [ServiceBuild ''sheets'' ''v4''])"
proof -
  have "no_sheet_environ ''SPREADSHEET_ID'' = None" by (simp add: no_sheet_environ_def)
  moreover have "no_sheet_environ ''GCP_CREDENTIALS_B64'' = Some ''e30=''
      \<and> load_info (accepting_lib (JDict []) JNone) ''e30='' = Inr (JDict [])
      \<and> from_service_account_info (accepting_lib (JDict []) JNone) (JDict []) sheets_scopes
           = Inr \<lparr>account_info = JDict [], account_scopes = sheets_scopes\<rparr>
      \<and> build (accepting_lib (JDict []) JNone) ''sheets'' ''v4''
            \<lparr>account_info = JDict [], account_scopes = sheets_scopes\<rparr> = None
      \<and> list_all (has_keys sheet_keys) [example_item]"
    by (simp add: no_sheet_environ_def load_info_accepting accepting_lib_simps example_item_sheet)
  ultimately show ?thesis
    using GoogleSheetsLogger_missing_spreadsheet [where environ = no_sheet_environ
      and lib = "accepting_lib (JDict []) JNone" and news_items = "[example_item]"
      and secret = "''e30=''" and i = "JDict []"
      and c = "\<lparr>account_info = JDict [], account_scopes = sheets_scopes\<rparr>"]
    by blast
qed


section \<open>The empty collection\<close>

text \<open>
  C6, as amended. For the empty sequence, SlackBotTool with the webhook configured sends
  one request whose list of blocks is empty (one call of \<^verbatim>\<open>requests.post\<close>) and, when the
  response is accepted, returns the count 0. GoogleSheetsLogger, with credentials and spreadsheet identifier in place,
  executes one append with no rows and returns as \<^verbatim>\<open>rows_added\<close> the \<^verbatim>\<open>updatedRows\<close> that the
  remote service reports: 0 when the service reports 0. Neither raises on account of the
  sequence being empty.
\<close>

theorem empty_collection:
  "(environ ''SLACK_WEBHOOK_URL'' = Some w \<and> w \<noteq> []
      \<and> post (slack_request w (slack_payload channel [])) = Inr response
      \<and> raise_for_status response = None
    \<longrightarrow> SlackBotTool environ post [] channel
          = (Inr (JDict [(''status'', JStr ''sent''), (''count'', JInt 0)]),
             [RequestsCall (slack_request w (slack_payload channel []))]))
   \<and> (environ ''GCP_CREDENTIALS_B64'' = Some secret \<and> load_info lib secret = Inr i
        \<and> from_service_account_info lib i sheets_scopes = Inr c
        \<and> build lib ''sheets'' ''v4'' c = None
        \<and> environ ''SPREADSHEET_ID'' = Some sid
        \<and> execute lib (append_of c sid []) = Inr result
        \<and> updated_rows result = Inr n
      \<longrightarrow> GoogleSheetsLogger lib environ []
            = (Inr (JDict [(''status'', JStr ''logged''), (''rows_added'', n)]),
               [ServiceBuild ''sheets'' ''v4'', SheetsAppend (append_of c sid [])]))"
proof (intro conjI impI)
  assume "environ ''SLACK_WEBHOOK_URL'' = Some w \<and> w \<noteq> []
      \<and> post (slack_request w (slack_payload channel [])) = Inr response
      \<and> raise_for_status response = None"
  then show "SlackBotTool environ post [] channel
          = (Inr (JDict [(''status'', JStr ''sent''), (''count'', JInt 0)]),
             [RequestsCall (slack_request w (slack_payload channel []))])"
    by (simp add: SlackBotTool_def)
next
  assume "environ ''GCP_CREDENTIALS_B64'' = Some secret \<and> load_info lib secret = Inr i
        \<and> from_service_account_info lib i sheets_scopes = Inr c
        \<and> build lib ''sheets'' ''v4'' c = None
        \<and> environ ''SPREADSHEET_ID'' = Some sid
        \<and> execute lib (append_of c sid []) = Inr result
        \<and> updated_rows result = Inr n"
  then show "GoogleSheetsLogger lib environ []
            = (Inr (JDict [(''status'', JStr ''logged''), (''rows_added'', n)]),
               [ServiceBuild ''sheets'' ''v4'', SheetsAppend (append_of c sid [])])"
    by (simp add: GoogleSheetsLogger_def sheets_scopes_def values_append_def append_of_def)
qed

theorem empty_collection_witness:
  "SlackBotTool example_environ (replies (response_with 200)) [] ''#general''
     = (Inr (JDict [(''status'', JStr ''sent''), (''count'', JInt 0)]),
        [RequestsCall (slack_request ''https://hooks.slack.com/services/T0''
           (slack_payload ''#general'' []))])
   \<and> GoogleSheetsLogger (accepting_lib (JDict []) zero_rows_result) example_environ []
     = (Inr (JDict [(''status'', JStr ''logged''), (''rows_added'', JInt 0)]),
        [ServiceBuild ''sheets'' ''v4'',
         SheetsAppend (append_of example_credentials ''sheet-1'' [])])"
proof -
  have "example_environ ''SLACK_WEBHOOK_URL'' = Some ''https://hooks.slack.com/services/T0''
      \<and> ''https://hooks.slack.com/services/T0'' \<noteq> []
      \<and> replies (response_with 200)
           (slack_request ''https://hooks.slack.com/services/T0'' (slack_payload ''#general'' []))
          = Inr (response_with 200)
      \<and> raise_for_status (response_with 200) = None"
    by (simp add: example_webhook replies_def raise_for_status_def response_with_def)
  moreover have "example_environ ''GCP_CREDENTIALS_B64'' = Some ''e30=''
      \<and> load_info (accepting_lib (JDict []) zero_rows_result) ''e30='' = Inr (JDict [])
      \<and> from_service_account_info (accepting_lib (JDict []) zero_rows_result) (JDict [])
           sheets_scopes = Inr example_credentials
      \<and> build (accepting_lib (JDict []) zero_rows_result) ''sheets'' ''v4'' example_credentials
           = None
      \<and> example_environ ''SPREADSHEET_ID'' = Some ''sheet-1''
      \<and> execute (accepting_lib (JDict []) zero_rows_result)
           (append_of example_credentials ''sheet-1'' []) = Inr zero_rows_result
      \<and> updated_rows zero_rows_result = Inr (JInt 0)"
    by (simp add: example_environ_def load_info_accepting accepting_lib_simps
          example_credentials_def updated_rows_def py_get_def zero_rows_result_def)
  ultimately show ?thesis
    using empty_collection [where environ = example_environ
      and post = "replies (response_with 200)" and channel = "''#general''"
      and w = "''https://hooks.slack.com/services/T0''" and response = "response_with 200"
      and lib = "accepting_lib (JDict []) zero_rows_result" and secret = "''e30=''"
      and i = "JDict []" and c = example_credentials and sid = "''sheet-1''"
      and result = zero_rows_result and n = "JInt 0"]
    by blast
qed

text \<open>
  The claim fails where the remote service answers the append of no rows without an
  \<^verbatim>\<open>updatedRows\<close> field: the tool then reports \<^verbatim>\<open>None\<close> as \<^verbatim>\<open>rows_added\<close>, not 0.
\<close>

theorem empty_collection_counterexample:
  "GoogleSheetsLogger (accepting_lib (JDict []) no_rows_result) example_environ []
     = (Inr (JDict [(''status'', JStr ''logged''), (''rows_added'', JNone)]),
        [ServiceBuild ''sheets'' ''v4'',
         SheetsAppend (append_of example_credentials ''sheet-1'' [])])
   \<and> JNone \<noteq> JInt 0"
  by (simp add: GoogleSheetsLogger_def example_environ_def load_info_accepting
        accepting_lib_simps values_append_def append_of_def example_credentials_def
        sheets_scopes_def updated_rows_def py_get_def no_rows_result_def)

section \<open>Failures of the run\<close>

text \<open>
  C9. \<^verbatim>\<open>run\<close> starts the crew once: the state of the world after \<^verbatim>\<open>run\<close> is the state after
  one \<^verbatim>\<open>kickoff\<close>. If \<^verbatim>\<open>kickoff\<close> raises an exception, \<^verbatim>\<open>run\<close> raises a new exception whose
  message is the run-level prefix followed by the text of the original one.
\<close>

theorem run_wraps_failure:
  "snd (run is_exception str_e kickoff year w) = snd (kickoff (run_inputs year) w)
   \<and> (kickoff (run_inputs year) w = (Inl e, w') \<and> is_exception e
      \<longrightarrow> run is_exception str_e kickoff year w
            = (Inl (Wrapped (''An error occurred while running the crew: '' @ str_e e)), w'))"
  by (auto simp: run_def split: prod.splits sum.splits)

theorem run_wraps_failure_witness:
  "run every_exception message_of (failing_kickoff ''Missing SLACK_WEBHOOK_URL'') ''2026'' 0
     = (Inl (Wrapped ''An error occurred while running the crew: Missing SLACK_WEBHOOK_URL''), 1)"
proof -
  have "failing_kickoff ''Missing SLACK_WEBHOOK_URL'' (run_inputs ''2026'') 0
          = (Inl ''Missing SLACK_WEBHOOK_URL'', 1)
        \<and> every_exception ''Missing SLACK_WEBHOOK_URL''"
    by (simp add: failing_kickoff_def every_exception_def)
  with run_wraps_failure [where kickoff = "failing_kickoff ''Missing SLACK_WEBHOOK_URL''"
      and year = "''2026''" and w = 0 and w' = 1 and e = "''Missing SLACK_WEBHOOK_URL''"
      and is_exception = every_exception and str_e = message_of]
  show ?thesis by (simp add: message_of_def)
qed

end
